theory Spec2Isabelle
  imports Complex_Main
begin

section \<open>The liveness and shutdown logic of run.py\<close>

text \<open>
  The program is a local HTTP server with three threads of interest: the main thread, which
  handles one request at a time (\<open>PomodoroHandler.do_GET\<close>, \<open>do_POST\<close>), the daemon thread
  running \<open>heartbeat_monitor\<close>, and the thread that \<open>initiate_shutdown\<close> starts on
  \<open>server.shutdown\<close>. They communicate through module-level globals.

  The embedding passes the globals explicitly. Every call of \<open>time.time()\<close> is a parameter
  of the function that makes it, so the clock is an input of the model; a time is a real
  number (the source has floats of seconds). A request handler and one pass of the monitor
  through its loop body are each taken as one atomic step.
\<close>

type_synonym time = real

subsection \<open>Configuration (run.py, lines 30-33)\<close>

definition HEARTBEAT_TIMEOUT :: time where
  "HEARTBEAT_TIMEOUT = 120"

definition HEARTBEAT_CHECK_INTERVAL :: time where
  "HEARTBEAT_CHECK_INTERVAL = 5"

definition SHUTDOWN_GRACE_PERIOD :: time where
  "SHUTDOWN_GRACE_PERIOD = 3"

subsection \<open>Global state (lines 38-43)\<close>

text \<open>
  The reason handed to \<open>initiate_shutdown\<close> is a string in the source; the two strings the
  monitor builds and the default are the constructors here. \<open>No_heartbeat e\<close> stands for
  the f-string \<open>No heartbeat for {elapsed:.0f} seconds (tab likely closed)\<close> with
  \<open>elapsed = e\<close>.
\<close>

datatype reason = Unknown | Browser_tab_closed | No_heartbeat time

text \<open>
  Where the monitor thread stands: in \<open>time.sleep(HEARTBEAT_TIMEOUT)\<close> of line 195, in
  \<open>time.sleep(1)\<close> of line 198, or returned from \<open>heartbeat_monitor\<close>.
\<close>

datatype monitor_pc = Warmup_sleep | Loop_sleep | Exited

text \<open>
  \<open>server\<close> holds whether the global \<open>server\<close> is an object (true) or \<open>None\<close>;
  \<open>printed\<close> the reasons printed as \<open>[Shutdown] reason\<close>, oldest first;
  \<open>shutdown_threads\<close> the number of threads started on \<open>server.shutdown\<close>.
\<close>

record globals =
  last_heartbeat :: time
  server :: bool
  shutdown_flag :: bool
  shutdown_requested :: bool
  shutdown_request_time :: time
  printed :: "reason list"
  shutdown_threads :: nat
  pc :: monitor_pc

subsection \<open>The request handler (lines 99-163)\<close>

text \<open>
  A response is what the handler itself sends: the status, the headers it adds with
  \<open>send_header\<close> and the body. For the other paths of \<open>do_GET\<close> the handler hands over
  to file serving, which reads no global: \<open>serve_no_cache\<close> or the base class's
  \<open>do_GET\<close>, on the path as rewritten.
\<close>

datatype response =
    Response nat "(string \<times> string) list" string
  | Serve_no_cache string
  | Super_do_GET string

definition endswith :: "string \<Rightarrow> string \<Rightarrow> bool" where
  "endswith p sfx = (length sfx \<le> length p \<and> drop (length p - length sfx) p = sfx)"

definition do_GET :: "time \<Rightarrow> string \<Rightarrow> globals \<Rightarrow> response \<times> globals" where
  "do_GET now path s =
     (if path = ''/heartbeat'' then
        (Response 200 [(''Content-Type'', ''text/plain''), (''Cache-Control'', ''no-cache'')] ''ok'',
         s\<lparr>last_heartbeat := now, shutdown_requested := False\<rparr>)
      else if path = ''/shutdown'' then
        (Response 200 [(''Content-Type'', ''text/plain'')] ''use POST'', s)
      else
        (let p = (if path = ''/'' then ''/index.html'' else path)
         in if endswith p ''.html'' then (Serve_no_cache p, s) else (Super_do_GET p, s)))"

definition do_POST :: "time \<Rightarrow> string \<Rightarrow> globals \<Rightarrow> response \<times> globals" where
  "do_POST now path s =
     (if path = ''/shutdown'' then
        (Response 200 [(''Content-Type'', ''text/plain'')] ''noted'',
         s\<lparr>shutdown_requested := True, shutdown_request_time := now\<rparr>)
      else (Response 404 [] [], s))"

subsection \<open>Shutdown (lines 225-235)\<close>

definition initiate_shutdown :: "reason \<Rightarrow> globals \<Rightarrow> globals" where
  "initiate_shutdown r s =
     (if shutdown_flag s then s
      else
        (let s1 = s\<lparr>printed := printed s @ [r], shutdown_flag := True\<rparr>
         in if server s1 then s1\<lparr>shutdown_threads := Suc (shutdown_threads s1)\<rparr> else s1))"

subsection \<open>The monitor thread (lines 190-222)\<close>

text \<open>
  \<open>loop_head\<close> is the test of \<open>while not shutdown_flag.is_set()\<close>: the thread either
  returns or goes to sleep for a second.
\<close>

definition loop_head :: "globals \<Rightarrow> globals" where
  "loop_head s = (if shutdown_flag s then s\<lparr>pc := Exited\<rparr> else s\<lparr>pc := Loop_sleep\<rparr>)"

text \<open>Lines 218-222, the normal heartbeat timeout check, reading the clock as \<open>t3\<close>.\<close>

definition timeout_check :: "time \<Rightarrow> globals \<Rightarrow> globals" where
  "timeout_check t3 s =
     (let elapsed = t3 - last_heartbeat s
      in if elapsed > HEARTBEAT_TIMEOUT
         then (initiate_shutdown (No_heartbeat elapsed) s)\<lparr>pc := Exited\<rparr>
         else loop_head s)"

text \<open>
  Lines 200-222, one pass through the loop body after \<open>time.sleep(1)\<close> has returned.
  The body reads the clock up to three times: \<open>t1\<close> for \<open>grace_elapsed\<close>, \<open>t2\<close> for
  \<open>heartbeat_elapsed\<close>, \<open>t3\<close> for \<open>elapsed\<close>. When a shutdown is requested and neither
  the first test nor the \<open>elif\<close> holds, control falls through to the timeout check.
\<close>

definition monitor_body :: "time \<Rightarrow> time \<Rightarrow> time \<Rightarrow> globals \<Rightarrow> globals" where
  "monitor_body t1 t2 t3 s =
     (if shutdown_flag s then s\<lparr>pc := Exited\<rparr>
      else if shutdown_requested s then
        (let grace_elapsed = t1 - shutdown_request_time s;
             heartbeat_elapsed = t2 - last_heartbeat s
         in if grace_elapsed > SHUTDOWN_GRACE_PERIOD \<and> heartbeat_elapsed > SHUTDOWN_GRACE_PERIOD
            then (initiate_shutdown Browser_tab_closed s)\<lparr>pc := Exited\<rparr>
            else if heartbeat_elapsed < 2
            then loop_head (s\<lparr>shutdown_requested := False\<rparr>)
            else timeout_check t3 s)
      else timeout_check t3 s)"

text \<open>
  The monitor thread resumes from its current sleep. From the warm-up sleep it reaches the
  loop head; from the sleep in the loop it runs the body; once returned it does nothing.
\<close>

definition heartbeat_monitor :: "time \<Rightarrow> time \<Rightarrow> time \<Rightarrow> globals \<Rightarrow> globals" where
  "heartbeat_monitor t1 t2 t3 s =
     (case pc s of
        Warmup_sleep \<Rightarrow> loop_head s
      | Loop_sleep \<Rightarrow> monitor_body t1 t2 t3 s
      | Exited \<Rightarrow> s)"

subsection \<open>Start-up (lines 39-43 and 362-382)\<close>

text \<open>
  The globals when \<open>main\<close> has created the server, reset \<open>last_heartbeat\<close> at time
  \<open>start\<close> and started the monitor thread.
\<close>

definition main_init :: "time \<Rightarrow> globals" where
  "main_init start =
     \<lparr>last_heartbeat = start, server = True, shutdown_flag = False,
      shutdown_requested = False, shutdown_request_time = 0, printed = [],
      shutdown_threads = 0, pc = Warmup_sleep\<rparr>"

subsection \<open>Runs\<close>

text \<open>
  An event is a request handled at a time, a resumption of the monitor thread with its
  clock readings, or a call of \<open>initiate_shutdown\<close>. A run applies events in order.
\<close>

datatype request = GET string | POST string

datatype event = Request time request | Wake time time time | Initiate reason

fun handle :: "time \<Rightarrow> request \<Rightarrow> globals \<Rightarrow> globals" where
  "handle now (GET path) s = snd (do_GET now path s)"
| "handle now (POST path) s = snd (do_POST now path s)"

fun step :: "event \<Rightarrow> globals \<Rightarrow> globals" where
  "step (Request now r) s = handle now r s"
| "step (Wake t1 t2 t3) s = heartbeat_monitor t1 t2 t3 s"
| "step (Initiate r) s = initiate_shutdown r s"

fun run :: "globals \<Rightarrow> event list \<Rightarrow> globals" where
  "run s [] = s"
| "run s (e # es) = run (step e s) es"

text \<open>
  A trace is chronological from \<open>t\<close> on when no clock reading in it is earlier than the
  one before, starting with \<open>t\<close>.
\<close>

fun chronological :: "time \<Rightarrow> event list \<Rightarrow> bool" where
  "chronological t [] = True"
| "chronological t (Request now r # es) = (t \<le> now \<and> chronological now es)"
| "chronological t (Wake t1 t2 t3 # es) =
     (t \<le> t1 \<and> t1 \<le> t2 \<and> t2 \<le> t3 \<and> chronological t3 es)"
| "chronological t (Initiate r # es) = chronological t es"

subsection \<open>The monitor's schedule\<close>

text \<open>
  The times at which the monitor thread resumes follow from its sleeps. \<open>advance t (w, s)\<close>
  lets the thread, due to resume at \<open>w\<close>, run up to time \<open>t\<close>: each sleep lasts exactly
  as long as asked (120 seconds once, then one second per pass), and a pass through the loop
  takes no time, so its three clock readings are the time it resumed at.
\<close>

function advance :: "time \<Rightarrow> time \<times> globals \<Rightarrow> time \<times> globals" where
  "advance t (w, s) =
     (if pc s \<noteq> Exited \<and> w \<le> t then advance t (w + 1, heartbeat_monitor w w w s)
      else (w, s))"
  by pat_completeness auto
termination
proof (relation "measure (\<lambda>(t, w, s). if pc s = Exited then 0 else nat (\<lfloor>t - w\<rfloor> + 2))")
  show "wf (measure (\<lambda>(t, w, s). if pc s = Exited then 0 else nat (\<lfloor>t - w\<rfloor> + 2)))"
    by simp
next
  fix t w :: time and s :: globals
  assume due: "pc s \<noteq> Exited \<and> w \<le> t"
  then have "0 < \<lfloor>t - w\<rfloor> + 2" and "\<lfloor>t - (w + 1)\<rfloor> < \<lfloor>t - w\<rfloor>"
    by linarith+
  with due show "((t, w + 1, heartbeat_monitor w w w s), (t, w, s))
      \<in> measure (\<lambda>(t, w, s). if pc s = Exited then 0 else nat (\<lfloor>t - w\<rfloor> + 2))"
    by auto
qed

declare advance.simps [simp del]

text \<open>
  \<open>deliver\<close> hands timed requests to the handler in order, the monitor running in between;
  \<open>system_at t start rs\<close> is the state at time \<open>t\<close> of a process whose \<open>main\<close> started the
  monitor at \<open>start\<close> and which received the requests \<open>rs\<close>, none later than \<open>t\<close>.
\<close>

fun deliver :: "time \<times> globals \<Rightarrow> (time \<times> request) list \<Rightarrow> time \<times> globals" where
  "deliver ws [] = ws"
| "deliver ws ((t, r) # rs) = (case advance t ws of (w, s) \<Rightarrow> deliver (w, handle t r s) rs)"

definition system_at :: "time \<Rightarrow> time \<Rightarrow> (time \<times> request) list \<Rightarrow> globals" where
  "system_at t start rs =
     snd (advance t (deliver (start + HEARTBEAT_TIMEOUT, main_init start) rs))"

subsection \<open>The states of the specification\<close>

text \<open>
  The specification names three states of the orchestrator. In terms of the program:
  TERMINATING once \<open>shutdown_flag\<close> is set or the monitor has returned, WARMUP while the
  monitor is in its first sleep, MONITORING while it is in its loop.
\<close>

datatype spec_state = WARMUP | MONITORING | TERMINATING

definition state_of :: "globals \<Rightarrow> spec_state" where
  "state_of s =
     (if shutdown_flag s then TERMINATING
      else case pc s of Warmup_sleep \<Rightarrow> WARMUP | Loop_sleep \<Rightarrow> MONITORING | Exited \<Rightarrow> TERMINATING)"

subsection \<open>Predicates on traces\<close>

text \<open>How often \<open>shutdown_flag\<close> goes from false to true along a run.\<close>

fun flag_rises :: "globals \<Rightarrow> event list \<Rightarrow> nat" where
  "flag_rises s [] = 0"
| "flag_rises s (e # es) =
     (if \<not> shutdown_flag s \<and> shutdown_flag (step e s) then 1 else 0) + flag_rises (step e s) es"





text \<open>
  \<open>wakes_within lo hi es\<close>: \<open>es\<close> are resumptions of the monitor only, with all clock
  readings in order and between \<open>lo\<close> and \<open>hi\<close>.
\<close>

fun wakes_within :: "time \<Rightarrow> time \<Rightarrow> event list \<Rightarrow> bool" where
  "wakes_within lo hi [] = True"
| "wakes_within lo hi (Wake t1 t2 t3 # es) =
     (lo \<le> t1 \<and> t1 \<le> t2 \<and> t2 \<le> t3 \<and> t3 \<le> hi \<and> wakes_within lo hi es)"
| "wakes_within lo hi (e # es) = False"

section \<open>The request handler\<close>

text \<open>
  C8. A GET request to /shutdown is answered \<open>use POST\<close> and leaves every global as it
  was: last_heartbeat, shutdown_requested, shutdown_request_time, shutdown_flag and all
  the others. It neither records nor triggers a shutdown.
\<close>

theorem get_shutdown_unchanged:
  "do_GET now ''/shutdown'' s = (Response 200 [(''Content-Type'', ''text/plain'')] ''use POST'', s)"
  by (simp add: do_GET_def)

text \<open>
  C9. A POST request to /shutdown is answered with status 200, content type text/plain and
  body \<open>noted\<close>. When the handler returns, shutdown_flag is what it was (still false if it
  was false), no thread has been started on server.shutdown, nothing was printed, and of
  the globals only shutdown_requested and shutdown_request_time have been written.
\<close>

theorem post_shutdown_not_synchronous:
  "fst (do_POST now ''/shutdown'' s) = Response 200 [(''Content-Type'', ''text/plain'')] ''noted'' \<and>
   snd (do_POST now ''/shutdown'' s) = s\<lparr>shutdown_requested := True, shutdown_request_time := now\<rparr> \<and>
   shutdown_flag (snd (do_POST now ''/shutdown'' s)) = shutdown_flag s \<and>
   shutdown_threads (snd (do_POST now ''/shutdown'' s)) = shutdown_threads s \<and>
   printed (snd (do_POST now ''/shutdown'' s)) = printed s \<and>
   last_heartbeat (snd (do_POST now ''/shutdown'' s)) = last_heartbeat s \<and>
   pc (snd (do_POST now ''/shutdown'' s)) = pc s"
  by (simp add: do_POST_def)

text \<open>
  C10. A POST request to any path other than /shutdown is answered with status 404, no
  header of the handler's and no body, and leaves every global as it was.
\<close>

theorem post_other_path_404:
  "path \<noteq> ''/shutdown'' \<Longrightarrow> do_POST now path s = (Response 404 [] [], s)"
  by (simp add: do_POST_def)

text \<open>The theorem at a POST to /heartbeat.\<close>

theorem post_other_path_404_witness:
  "''/heartbeat'' \<noteq> ''/shutdown'' \<and>
   do_POST 7 ''/heartbeat'' (main_init 0) = (Response 404 [] [], main_init 0)"
  using post_other_path_404 [of "''/heartbeat''" 7 "main_init 0"] by simp

section \<open>Unfolding the program\<close>

lemmas monitor_defs = heartbeat_monitor_def monitor_body_def timeout_check_def loop_head_def
  initiate_shutdown_def

lemmas handler_defs = do_GET_def do_POST_def

lemmas eval_defs = system_at_def main_init_def HEARTBEAT_TIMEOUT_def SHUTDOWN_GRACE_PERIOD_def
  do_GET_def do_POST_def heartbeat_monitor_def monitor_body_def timeout_check_def loop_head_def
  initiate_shutdown_def state_of_def advance.simps Let_def

lemma run_append: "run s (xs @ ys) = run (run s xs) ys"
  by (induction xs arbitrary: s) simp_all

section \<open>Shutdown happens once\<close>

lemma handle_fields:
  "shutdown_flag (handle now r s) = shutdown_flag s"
  "shutdown_threads (handle now r s) = shutdown_threads s"
  "printed (handle now r s) = printed s"
  "pc (handle now r s) = pc s"
  "server (handle now r s) = server s"
  by (cases r; simp add: handler_defs Let_def)+

lemma step_latched:
  "shutdown_flag s \<Longrightarrow>
     shutdown_flag (step e s) \<and> shutdown_threads (step e s) = shutdown_threads s \<and>
     printed (step e s) = printed s"
  by (cases e) (simp_all add: handle_fields monitor_defs split: monitor_pc.splits)

lemma run_latched:
  "shutdown_flag s \<Longrightarrow>
     shutdown_flag (run s es) \<and> shutdown_threads (run s es) = shutdown_threads s \<and>
     printed (run s es) = printed s"
proof (induction es arbitrary: s)
  case Nil
  then show ?case by simp
next
  case (Cons e es)
  from Cons.prems have st: "shutdown_flag (step e s)"
    "shutdown_threads (step e s) = shutdown_threads s" "printed (step e s) = printed s"
    using step_latched [of s e] by simp_all
  from Cons.IH [OF st(1)] st show ?case by simp
qed

lemma flag_rises_latched: "shutdown_flag s \<Longrightarrow> flag_rises s es = 0"
proof (induction es arbitrary: s)
  case Nil
  then show ?case by simp
next
  case (Cons e es)
  then show ?case using step_latched [of s e] by simp
qed

lemma step_threads:
  "shutdown_threads (step e s) \<le> shutdown_threads s + 1"
  "\<not> shutdown_flag (step e s) \<Longrightarrow> shutdown_threads (step e s) = shutdown_threads s"
  by (cases e; simp add: handle_fields monitor_defs Let_def split: monitor_pc.splits if_splits)+

lemma flag_rises_le_1: "flag_rises s es \<le> 1"
proof (induction es arbitrary: s)
  case Nil
  then show ?case by simp
next
  case (Cons e es)
  show ?case
  proof (cases "shutdown_flag (step e s)")
    case True
    then show ?thesis by (simp add: flag_rises_latched)
  next
    case False
    then show ?thesis using Cons.IH [of "step e s"] by simp
  qed
qed

lemma run_threads_le: "shutdown_threads (run s es) \<le> shutdown_threads s + 1"
proof (induction es arbitrary: s)
  case Nil
  then show ?case by simp
next
  case (Cons e es)
  show ?case
  proof (cases "shutdown_flag (step e s)")
    case True
    then show ?thesis using run_latched [of "step e s" es] step_threads(1) [of e s] by simp
  next
    case False
    then show ?thesis using Cons.IH [of "step e s"] step_threads(2) [of e s] by simp
  qed
qed

text \<open>
  C5. Shutdown is idempotent. Once \<open>shutdown_flag\<close> is set, a call of
  \<open>initiate_shutdown\<close> returns the globals as they were: nothing is printed and no thread is
  started on \<open>server.shutdown\<close>. Along any run of requests, resumptions of the monitor and
  calls of \<open>initiate_shutdown\<close>, a set flag stays set with the thread count and the printed
  lines unchanged, the flag goes from false to true at most once, and at most one thread is
  started on \<open>server.shutdown\<close>.
\<close>

theorem shutdown_idempotent:
  "(shutdown_flag s \<longrightarrow> initiate_shutdown r s = s) \<and>
   (shutdown_flag s \<longrightarrow>
      shutdown_flag (run s es) \<and> shutdown_threads (run s es) = shutdown_threads s \<and>
      printed (run s es) = printed s) \<and>
   flag_rises s es \<le> 1 \<and>
   shutdown_threads (run s es) \<le> shutdown_threads s + 1"
  using run_latched [of s es] flag_rises_le_1 [of s es] run_threads_le [of s es]
  by (simp add: initiate_shutdown_def)


text \<open>
  The theorem at two runs: the process that started at 0, got no request and shut down at
  121, with a further call of \<open>initiate_shutdown\<close>; and the same process from its start.
\<close>

theorem shutdown_idempotent_witness:
  "shutdown_flag (system_at 121 0 []) \<and>
   initiate_shutdown Browser_tab_closed (system_at 121 0 []) = system_at 121 0 [] \<and>
   shutdown_threads (run (system_at 121 0 []) [Initiate Unknown, Wake 122 122 122]) = 1 \<and>
   flag_rises (main_init 0) [Wake 120 120 120, Wake 121 121 121, Initiate Unknown] \<le> 1 \<and>
   shutdown_threads (run (main_init 0) [Wake 120 120 120, Wake 121 121 121, Initiate Unknown]) \<le> 1"
  using shutdown_idempotent [of "system_at 121 0 []" Browser_tab_closed "[Initiate Unknown, Wake 122 122 122]"]
    shutdown_idempotent [of "main_init 0" Unknown "[Wake 120 120 120, Wake 121 121 121, Initiate Unknown]"]
  by (simp add: eval_defs)

section \<open>The departure notice\<close>



section \<open>Reload\<close>

text \<open>
  Passes of the monitor while a shutdown may be requested, none later than \<open>hi\<close>: if
  \<open>hi\<close> is within the grace period of the request and within \<open>HEARTBEAT_TIMEOUT\<close> of
  the last heartbeat, they change nothing but \<open>shutdown_requested\<close>, which the reload
  branch may clear.
\<close>

lemma pending_wakes:
  assumes "wakes_within lo hi ws" and "pc u = Loop_sleep" and "\<not> shutdown_flag u"
    and "hi - last_heartbeat u \<le> HEARTBEAT_TIMEOUT"
    and "shutdown_requested u \<Longrightarrow> hi - shutdown_request_time u \<le> SHUTDOWN_GRACE_PERIOD"
  shows "run u ws = u \<or> run u ws = u\<lparr>shutdown_requested := False\<rparr>"
  using assms
proof (induction ws arbitrary: u)
  case Nil
  then show ?case by simp
next
  case (Cons e ws)
  then obtain t1 t2 t3 where e: "e = Wake t1 t2 t3"
    by (cases e) simp_all
  with Cons.prems(1) have rd: "lo \<le> t1" "t1 \<le> t2" "t2 \<le> t3" "t3 \<le> hi" "wakes_within lo hi ws"
    by simp_all
  from rd Cons.prems(4) have late: "\<not> t3 - last_heartbeat u > HEARTBEAT_TIMEOUT"
    by auto
  have one: "heartbeat_monitor t1 t2 t3 u = u \<or>
             heartbeat_monitor t1 t2 t3 u = u\<lparr>shutdown_requested := False\<rparr>"
  proof (cases "shutdown_requested u")
    case True
    with Cons.prems(5) rd have "\<not> t1 - shutdown_request_time u > SHUTDOWN_GRACE_PERIOD"
      by auto
    with True late Cons.prems(2,3) show ?thesis
      by (simp add: monitor_defs Let_def)
  next
    case False
    with late Cons.prems(2,3) show ?thesis
      by (simp add: monitor_defs Let_def)
  qed
  then show ?case
  proof
    assume same: "heartbeat_monitor t1 t2 t3 u = u"
    from Cons.IH [OF rd(5) Cons.prems(2,3,4,5)] same e show ?thesis by simp
  next
    assume cleared: "heartbeat_monitor t1 t2 t3 u = u\<lparr>shutdown_requested := False\<rparr>"
    let ?u = "u\<lparr>shutdown_requested := False\<rparr>"
    have "run ?u ws = ?u \<or> run ?u ws = ?u\<lparr>shutdown_requested := False\<rparr>"
      by (rule Cons.IH [OF rd(5)]) (use Cons.prems in simp_all)
    then have "run ?u ws = ?u" by auto
    with cleared e show ?thesis by simp
  qed
qed

text \<open>
  C1, as the code has it. Let the monitor be in its loop and no shutdown initiated
  (MONITORING). POST /shutdown is handled at \<open>t1\<close> and GET /heartbeat at \<open>t2\<close>, less
  than 2 seconds later. The monitor may pass any number of times in between, with
  readings up to \<open>hi\<close>, and passes once after the heartbeat, with last reading \<open>t5\<close>.
  If \<open>hi\<close> is at most \<open>HEARTBEAT_TIMEOUT\<close> after the heartbeat before the notice, and
  \<open>t5\<close> at most \<open>HEARTBEAT_TIMEOUT\<close> after the new heartbeat, then the system is in
  MONITORING before the heartbeat and after the last pass, where \<open>shutdown_requested\<close>
  is false and no shutdown has been initiated: the globals are those of the start with
  the new \<open>last_heartbeat\<close> and the time of the request.
\<close>

theorem reload_keeps_monitoring:
  assumes "state_of s = MONITORING" and "t1 \<le> t2" and "t2 - t1 < 2"
    and "wakes_within t1 hi ws" and "hi \<le> t2"
    and "hi - last_heartbeat s \<le> HEARTBEAT_TIMEOUT"
    and "t2 \<le> t3" and "t5 - t2 \<le> HEARTBEAT_TIMEOUT"
  shows "state_of (run s (Request t1 (POST ''/shutdown'') # ws)) = MONITORING \<and>
         run s (Request t1 (POST ''/shutdown'') # ws @
                [Request t2 (GET ''/heartbeat''), Wake t3 t4 t5])
           = s\<lparr>last_heartbeat := t2, shutdown_requested := False,
                shutdown_request_time := t1\<rparr> \<and>
         state_of (run s (Request t1 (POST ''/shutdown'') # ws @
                [Request t2 (GET ''/heartbeat''), Wake t3 t4 t5])) = MONITORING \<and>
         \<not> shutdown_requested (run s (Request t1 (POST ''/shutdown'') # ws @
                [Request t2 (GET ''/heartbeat''), Wake t3 t4 t5])) \<and>
         \<not> shutdown_flag (run s (Request t1 (POST ''/shutdown'') # ws @
                [Request t2 (GET ''/heartbeat''), Wake t3 t4 t5])) \<and>
         shutdown_threads (run s (Request t1 (POST ''/shutdown'') # ws @
                [Request t2 (GET ''/heartbeat''), Wake t3 t4 t5])) = shutdown_threads s \<and>
         printed (run s (Request t1 (POST ''/shutdown'') # ws @
                [Request t2 (GET ''/heartbeat''), Wake t3 t4 t5])) = printed s"
proof -
  from assms(1) have s: "\<not> shutdown_flag s" "pc s = Loop_sleep"
    by (auto simp: state_of_def split: if_splits monitor_pc.splits)
  define sb where "sb = s\<lparr>shutdown_requested := True, shutdown_request_time := t1\<rparr>"
  define sc where "sc = s\<lparr>last_heartbeat := t2, shutdown_requested := False,
                          shutdown_request_time := t1\<rparr>"
  have post: "step (Request t1 (POST ''/shutdown'')) s = sb"
    by (simp add: sb_def do_POST_def)
  have grace: "hi - shutdown_request_time sb \<le> SHUTDOWN_GRACE_PERIOD"
    using assms(3,5) by (simp add: sb_def SHUTDOWN_GRACE_PERIOD_def)
  have between: "run sb ws = sb \<or> run sb ws = sb\<lparr>shutdown_requested := False\<rparr>"
    by (rule pending_wakes [OF assms(4)]) (use s assms(6) grace in \<open>simp_all add: sb_def\<close>)
  then have mon: "state_of (run sb ws) = MONITORING"
    using s by (auto simp: sb_def state_of_def)
  from between have beat: "step (Request t2 (GET ''/heartbeat'')) (run sb ws) = sc"
    by (auto simp: sb_def sc_def do_GET_def)
  have pass: "step (Wake t3 t4 t5) sc = sc"
    using s assms(8) by (simp add: sc_def monitor_defs Let_def)
  have all: "run s (Request t1 (POST ''/shutdown'') # ws @
                [Request t2 (GET ''/heartbeat''), Wake t3 t4 t5]) = sc"
    using post beat pass by (simp add: run_append)
  have first: "state_of (run s (Request t1 (POST ''/shutdown'') # ws)) = MONITORING"
    using post mon by simp
  show ?thesis
    unfolding all using first s by (simp add: sc_def state_of_def)
qed

text \<open>
  The theorem at the process that started at 0 and got heartbeats at 100 and 124.5:
  notice at 125, a pass at 126 that takes the reload branch, heartbeat at 126.5, next pass
  at 127.
\<close>

theorem reload_keeps_monitoring_witness:
  "state_of (system_at 125 0 [(100, GET ''/heartbeat''), (249 / 2, GET ''/heartbeat'')])
     = MONITORING \<and>
   wakes_within 125 126 [Wake 126 126 126] \<and>
   shutdown_requested (run (system_at 125 0 [(100, GET ''/heartbeat''), (249 / 2, GET ''/heartbeat'')])
      [Request 125 (POST ''/shutdown'')]) \<and>
   \<not> shutdown_requested (run (system_at 125 0 [(100, GET ''/heartbeat''), (249 / 2, GET ''/heartbeat'')])
      [Request 125 (POST ''/shutdown''), Wake 126 126 126]) \<and>
   state_of (run (system_at 125 0 [(100, GET ''/heartbeat''), (249 / 2, GET ''/heartbeat'')])
      (Request 125 (POST ''/shutdown'') # [Wake 126 126 126] @
       [Request (253 / 2) (GET ''/heartbeat''), Wake 127 127 127])) = MONITORING \<and>
   last_heartbeat (run (system_at 125 0 [(100, GET ''/heartbeat''), (249 / 2, GET ''/heartbeat'')])
      (Request 125 (POST ''/shutdown'') # [Wake 126 126 126] @
       [Request (253 / 2) (GET ''/heartbeat''), Wake 127 127 127])) = 253 / 2"
  using reload_keeps_monitoring [of
      "system_at 125 0 [(100, GET ''/heartbeat''), (249 / 2, GET ''/heartbeat'')]"
      125 "253 / 2" 126 "[Wake 126 126 126]" 127 127 127]
  by (simp add: eval_defs)

text \<open>
  C1 as stated fails, since the timeout check goes on while a reload is recognised.
  The process started at 0 with notice at 0 and heartbeat at 0.5: at 120 it is in
  MONITORING with no shutdown requested, and the next pass of the monitor, at 121, finds
  the heartbeat 120.5 seconds old and shuts down. And the process started at 0 with a
  heartbeat at 1.5 and the notice at 121.2: the pass at 122, between the notice and the
  heartbeat at 122.5, finds the request 0.8 seconds old and the heartbeat 120.5 seconds
  old, falls through to the timeout check and shuts down.
\<close>

theorem reload_then_timeout:
  "state_of (system_at 121 0 [(0, POST ''/shutdown''), (1 / 2, GET ''/heartbeat'')])
     = TERMINATING \<and>
   state_of (system_at 120 0 [(0, POST ''/shutdown''), (1 / 2, GET ''/heartbeat'')])
     = MONITORING \<and>
   \<not> shutdown_requested (system_at 120 0 [(0, POST ''/shutdown''), (1 / 2, GET ''/heartbeat'')]) \<and>
   printed (system_at 121 0 [(0, POST ''/shutdown''), (1 / 2, GET ''/heartbeat'')])
     = [No_heartbeat (241 / 2)] \<and>
   state_of (system_at 121 0 [(3 / 2, GET ''/heartbeat'')]) = MONITORING \<and>
   state_of (system_at (245 / 2) 0 [(3 / 2, GET ''/heartbeat''), (606 / 5, POST ''/shutdown''),
                                  (245 / 2, GET ''/heartbeat'')]) = TERMINATING \<and>
   printed (system_at (245 / 2) 0 [(3 / 2, GET ''/heartbeat''), (606 / 5, POST ''/shutdown''),
                                  (245 / 2, GET ''/heartbeat'')]) = [No_heartbeat (241 / 2)]"
  by (simp add: eval_defs)

section \<open>The two rules of the monitor\<close>

text \<open>
  C3, as the code has it. One pass of the monitor prints the heartbeat-timeout reason
  exactly when no shutdown is initiated yet, the time since the last heartbeat exceeds
  \<open>HEARTBEAT_TIMEOUT\<close>, and either no shutdown is requested or one is requested and
  neither the grace-period test (both elapsed times above \<open>SHUTDOWN_GRACE_PERIOD\<close>) nor
  the reload test (heartbeat less than 2 seconds ago) holds. It prints the tab-closed
  reason exactly when no shutdown is initiated yet, one is requested and the grace-period
  test holds. So while a shutdown is requested, the timeout rule still applies whenever
  the request is not older than the grace period.
\<close>

theorem timeout_rule_fires_iff:
  assumes "pc s = Loop_sleep"
  shows "((printed (heartbeat_monitor t1 t2 t3 s) = printed s @ [No_heartbeat e]) =
           (\<not> shutdown_flag s \<and> e = t3 - last_heartbeat s \<and>
            t3 - last_heartbeat s > HEARTBEAT_TIMEOUT \<and>
            (shutdown_requested s \<longrightarrow>
               \<not> (t1 - shutdown_request_time s > SHUTDOWN_GRACE_PERIOD \<and>
                  t2 - last_heartbeat s > SHUTDOWN_GRACE_PERIOD) \<and>
               \<not> t2 - last_heartbeat s < 2))) \<and>
         ((printed (heartbeat_monitor t1 t2 t3 s) = printed s @ [Browser_tab_closed]) =
           (\<not> shutdown_flag s \<and> shutdown_requested s \<and>
            t1 - shutdown_request_time s > SHUTDOWN_GRACE_PERIOD \<and>
            t2 - last_heartbeat s > SHUTDOWN_GRACE_PERIOD))"
  using assms by (auto simp: monitor_defs Let_def)

text \<open>
  The theorem at the process that started at 0 and got POST /shutdown at 119, when the
  monitor has just entered its loop at 120: a pass at 121 prints the timeout reason, a
  pass at 123 would print the tab-closed reason.
\<close>

theorem timeout_rule_fires_iff_witness:
  "pc (system_at 120 0 [(119, POST ''/shutdown'')]) = Loop_sleep \<and>
   shutdown_requested (system_at 120 0 [(119, POST ''/shutdown'')]) \<and>
   printed (heartbeat_monitor 121 121 121 (system_at 120 0 [(119, POST ''/shutdown'')]))
     = printed (system_at 120 0 [(119, POST ''/shutdown'')]) @ [No_heartbeat 121] \<and>
   printed (heartbeat_monitor 123 123 123 (system_at 120 0 [(119, POST ''/shutdown'')]))
     = printed (system_at 120 0 [(119, POST ''/shutdown'')]) @ [Browser_tab_closed]"
  using timeout_rule_fires_iff [of "system_at 120 0 [(119, POST ''/shutdown'')]" 121 121 121 121]
    timeout_rule_fires_iff [of "system_at 120 0 [(119, POST ''/shutdown'')]" 123 123 123 123]
  by (simp add: eval_defs)

text \<open>
  C3 as stated fails. The process started at 0 and got POST /shutdown at 119. At 120 it is
  in MONITORING with the shutdown requested. The pass at 121 finds the request 2 seconds
  old, within the grace period, falls through to the timeout check and shuts down with the
  heartbeat-timeout reason.
\<close>

theorem timeout_fires_while_departure_pending:
  "shutdown_requested (system_at 120 0 [(119, POST ''/shutdown'')]) \<and>
   \<not> shutdown_flag (system_at 120 0 [(119, POST ''/shutdown'')]) \<and>
   state_of (system_at 120 0 [(119, POST ''/shutdown'')]) = MONITORING \<and>
   shutdown_flag (system_at 121 0 [(119, POST ''/shutdown'')]) \<and>
   printed (system_at 121 0 [(119, POST ''/shutdown'')]) = [No_heartbeat 121]"
  by (simp add: eval_defs)

section \<open>Heartbeats\<close>

lemma handle_last_heartbeat:
  "last_heartbeat (handle now r s) =
     (if r = GET ''/heartbeat'' then now else last_heartbeat s)"
  by (cases r) (simp_all add: handler_defs Let_def)

lemma monitor_last_heartbeat:
  "last_heartbeat (heartbeat_monitor t1 t2 t3 s) = last_heartbeat s"
  "last_heartbeat (initiate_shutdown r s) = last_heartbeat s"
  by (simp_all add: monitor_defs Let_def split: monitor_pc.splits)

lemma chronological_prefix: "chronological t (xs @ ys) \<Longrightarrow> chronological t xs"
  by (induction t xs rule: chronological.induct) auto

lemma last_heartbeat_le_run:
  "chronological t es \<Longrightarrow> last_heartbeat s \<le> t \<Longrightarrow> last_heartbeat s \<le> last_heartbeat (run s es)"
proof (induction t es arbitrary: s rule: chronological.induct)
  case (1 t)
  then show ?case by simp
next
  case (2 t now r es)
  then have "last_heartbeat (handle now r s) \<le> now"
    and "last_heartbeat s \<le> last_heartbeat (handle now r s)"
    by (auto simp: handle_last_heartbeat)
  with 2 show ?case by fastforce
next
  case (3 t t1 t2 t3 es)
  then have "last_heartbeat (heartbeat_monitor t1 t2 t3 s) \<le> t3"
    by (simp add: monitor_last_heartbeat)
  with 3 show ?case by (fastforce simp: monitor_last_heartbeat)
next
  case (4 t r es)
  from 4 have c: "chronological t es" by simp
  have "last_heartbeat (initiate_shutdown r s) \<le> last_heartbeat (run (initiate_shutdown r s) es)"
    using "4.IH" [OF c, of "initiate_shutdown r s"] "4.prems" by (simp add: monitor_last_heartbeat)
  then show ?case by (simp add: monitor_last_heartbeat)
qed

lemma chronological_after:
  "chronological t (xs @ ys) \<Longrightarrow> last_heartbeat s \<le> t \<Longrightarrow>
     \<exists>t'. chronological t' ys \<and> last_heartbeat (run s xs) \<le> t'"
proof (induction t xs arbitrary: s rule: chronological.induct)
  case (1 t)
  then show ?case by auto
next
  case (2 t now r es)
  then have "last_heartbeat (handle now r s) \<le> now"
    by (auto simp: handle_last_heartbeat)
  with 2 show ?case by simp
next
  case (3 t t1 t2 t3 es)
  then have "last_heartbeat (heartbeat_monitor t1 t2 t3 s) \<le> t3"
    by (simp add: monitor_last_heartbeat)
  with 3 show ?case by simp
next
  case (4 t r es)
  then show ?case by (simp add: monitor_last_heartbeat)
qed

text \<open>
  C7, as the code has it. GET /heartbeat is answered with status 200, content type
  text/plain, no-cache and body \<open>ok\<close>; in every state it sets \<open>last_heartbeat\<close> to the
  time of the request, clears \<open>shutdown_requested\<close> and changes nothing else. The time is
  what \<open>time.time()\<close> returns. Provided the clock never goes back, that is along any
  chronological run of requests, resumptions of the monitor and calls of
  \<open>initiate_shutdown\<close> that starts no earlier than \<open>last_heartbeat\<close>, \<open>last_heartbeat\<close>
  never decreases: its value after a prefix \<open>xs\<close> is at least the initial one and at most
  the value after \<open>xs @ ys\<close>.
\<close>

theorem heartbeat_recorded_and_monotone:
  "do_GET now ''/heartbeat'' s =
     (Response 200 [(''Content-Type'', ''text/plain''), (''Cache-Control'', ''no-cache'')] ''ok'',
      s\<lparr>last_heartbeat := now, shutdown_requested := False\<rparr>) \<and>
   last_heartbeat (snd (do_GET now ''/heartbeat'' s)) = now \<and>
   \<not> shutdown_requested (snd (do_GET now ''/heartbeat'' s)) \<and>
   (chronological (last_heartbeat s) (xs @ ys) \<longrightarrow>
      last_heartbeat s \<le> last_heartbeat (run s xs) \<and>
      last_heartbeat (run s xs) \<le> last_heartbeat (run s (xs @ ys)))"
proof -
  have "last_heartbeat s \<le> last_heartbeat (run s xs) \<and>
        last_heartbeat (run s xs) \<le> last_heartbeat (run s (xs @ ys))"
    if chron: "chronological (last_heartbeat s) (xs @ ys)"
  proof -
    from chronological_after [OF chron] obtain t' where
      t': "chronological t' ys" "last_heartbeat (run s xs) \<le> t'"
      by auto
    from last_heartbeat_le_run [OF t']
    have "last_heartbeat (run s xs) \<le> last_heartbeat (run s (xs @ ys))"
      by (simp add: run_append)
    moreover from chronological_prefix [OF chron]
    have "last_heartbeat s \<le> last_heartbeat (run s xs)"
      by (rule last_heartbeat_le_run) simp
    ultimately show ?thesis by simp
  qed
  then show ?thesis by (simp add: do_GET_def)
qed

text \<open>
  The theorem at a run from start-up at 0 with heartbeats at 50 and 61.
\<close>

theorem heartbeat_recorded_and_monotone_witness:
  "chronological (last_heartbeat (main_init 0))
     ([Request 50 (GET ''/heartbeat''), Request 60 (POST ''/shutdown'')] @
      [Request 61 (GET ''/heartbeat''), Wake 120 120 120, Wake 121 121 121]) \<and>
   last_heartbeat (run (main_init 0)
     [Request 50 (GET ''/heartbeat''), Request 60 (POST ''/shutdown'')]) = 50 \<and>
   last_heartbeat (run (main_init 0)
     ([Request 50 (GET ''/heartbeat''), Request 60 (POST ''/shutdown'')] @
      [Request 61 (GET ''/heartbeat''), Wake 120 120 120, Wake 121 121 121])) = 61 \<and>
   last_heartbeat (snd (do_GET 50 ''/heartbeat'' (main_init 0))) = 50"
  using heartbeat_recorded_and_monotone [of 50 "main_init 0"
      "[Request 50 (GET ''/heartbeat''), Request 60 (POST ''/shutdown'')]"
      "[Request 61 (GET ''/heartbeat''), Wake 120 120 120, Wake 121 121 121]"]
  by (simp add: eval_defs)


text \<open>
  C7 as stated fails: the handler stores the clock reading as it is, with no comparison
  to the value before. When the clock reads 50 at one heartbeat and 49 at the next, as a
  wall clock set back does, \<open>last_heartbeat\<close> goes from 50 to 49.
\<close>

theorem heartbeats_against_the_clock:
  "last_heartbeat (run (main_init 0) [Request 50 (GET ''/heartbeat'')]) = 50 \<and>
   last_heartbeat (run (main_init 0)
      ([Request 50 (GET ''/heartbeat'')] @ [Request 49 (GET ''/heartbeat'')])) = 49 \<and>
   \<not> last_heartbeat (run (main_init 0) [Request 50 (GET ''/heartbeat'')])
       \<le> last_heartbeat (run (main_init 0)
            ([Request 50 (GET ''/heartbeat'')] @ [Request 49 (GET ''/heartbeat'')])) \<and>
   \<not> chronological (last_heartbeat (main_init 0))
       ([Request 50 (GET ''/heartbeat'')] @ [Request 49 (GET ''/heartbeat'')])"
  by (simp add: eval_defs)

section \<open>Heartbeats keep the server alive\<close>









section \<open>The tab-close scenario\<close>

lemma idle_wakes:
  assumes "pc s = Loop_sleep" and "\<not> shutdown_flag s" and "wakes_within lo hi ws"
    and "hi - last_heartbeat s \<le> HEARTBEAT_TIMEOUT"
    and "shutdown_requested s \<Longrightarrow>
           hi - shutdown_request_time s \<le> SHUTDOWN_GRACE_PERIOD \<and> 2 \<le> lo - last_heartbeat s"
  shows "run s ws = s"
  using assms(3)
proof (induction ws)
  case Nil
  then show ?case by simp
next
  case (Cons e ws)
  then obtain t1 t2 t3 where e: "e = Wake t1 t2 t3"
    by (cases e) simp_all
  with Cons.prems have rd: "lo \<le> t1" "t1 \<le> t2" "t2 \<le> t3" "t3 \<le> hi" "wakes_within lo hi ws"
    by simp_all
  have "heartbeat_monitor t1 t2 t3 s = s"
  proof (cases "shutdown_requested s")
    case True
    with assms(5) rd have "\<not> t1 - shutdown_request_time s > SHUTDOWN_GRACE_PERIOD"
      and "\<not> t2 - last_heartbeat s < 2" and "\<not> t3 - last_heartbeat s > HEARTBEAT_TIMEOUT"
      using assms(4) by auto
    with True assms(1,2) show ?thesis by (simp add: monitor_defs Let_def)
  next
    case False
    from rd assms(4) have "\<not> t3 - last_heartbeat s > HEARTBEAT_TIMEOUT" by auto
    with False assms(1,2) show ?thesis by (simp add: monitor_defs Let_def)
  qed
  with Cons.IH [OF rd(5)] e show ?case by simp
qed

text \<open>
  C2, as the code has it. While the monitor is in its warm-up sleep, a resumption decides
  nothing: the flag, the printed lines and the thread count stay as they were. Once the
  monitor is in its loop (MONITORING): after a heartbeat at 0, passes of the monitor up to
  10, POST /shutdown at 10 and passes with readings from 10 to 13, the state is still
  MONITORING; a pass with readings after 13 and up to 14 then initiates the shutdown with
  the tab-closed reason, and the state is TERMINATING.
\<close>

theorem terminating_after_grace_period:
  assumes "wakes_within 0 10 ws0" and "wakes_within 10 13 ws1"
    and "13 < t1" and "t1 \<le> t2" and "t2 \<le> t3" and "t3 \<le> 14"
  shows "(pc s = Warmup_sleep \<longrightarrow>
            shutdown_flag (heartbeat_monitor a b c s) = shutdown_flag s \<and>
            printed (heartbeat_monitor a b c s) = printed s \<and>
            shutdown_threads (heartbeat_monitor a b c s) = shutdown_threads s) \<and>
         (state_of s = MONITORING \<longrightarrow>
            state_of (run s ([Request 0 (GET ''/heartbeat'')] @ ws0 @
                             [Request 10 (POST ''/shutdown'')] @ ws1)) = MONITORING \<and>
            state_of (run s ([Request 0 (GET ''/heartbeat'')] @ ws0 @
                             [Request 10 (POST ''/shutdown'')] @ ws1 @ [Wake t1 t2 t3]))
              = TERMINATING \<and>
            shutdown_flag (run s ([Request 0 (GET ''/heartbeat'')] @ ws0 @
                             [Request 10 (POST ''/shutdown'')] @ ws1 @ [Wake t1 t2 t3])) \<and>
            printed (run s ([Request 0 (GET ''/heartbeat'')] @ ws0 @
                             [Request 10 (POST ''/shutdown'')] @ ws1 @ [Wake t1 t2 t3]))
              = printed s @ [Browser_tab_closed])"
proof -
  have warm: "shutdown_flag (heartbeat_monitor a b c s) = shutdown_flag s \<and>
      printed (heartbeat_monitor a b c s) = printed s \<and>
      shutdown_threads (heartbeat_monitor a b c s) = shutdown_threads s"
    if "pc s = Warmup_sleep"
    using that by (simp add: monitor_defs)
  have loop: "state_of (run s ([Request 0 (GET ''/heartbeat'')] @ ws0 @
                             [Request 10 (POST ''/shutdown'')] @ ws1)) = MONITORING \<and>
            state_of (run s ([Request 0 (GET ''/heartbeat'')] @ ws0 @
                             [Request 10 (POST ''/shutdown'')] @ ws1 @ [Wake t1 t2 t3]))
              = TERMINATING \<and>
            shutdown_flag (run s ([Request 0 (GET ''/heartbeat'')] @ ws0 @
                             [Request 10 (POST ''/shutdown'')] @ ws1 @ [Wake t1 t2 t3])) \<and>
            printed (run s ([Request 0 (GET ''/heartbeat'')] @ ws0 @
                             [Request 10 (POST ''/shutdown'')] @ ws1 @ [Wake t1 t2 t3]))
              = printed s @ [Browser_tab_closed]"
    if mon: "state_of s = MONITORING"
  proof -
    from mon have s: "\<not> shutdown_flag s" "pc s = Loop_sleep"
      by (auto simp: state_of_def split: if_splits monitor_pc.splits)
    define sa where "sa = s\<lparr>last_heartbeat := 0, shutdown_requested := False\<rparr>"
    define sb where "sb = sa\<lparr>shutdown_requested := True, shutdown_request_time := 10\<rparr>"
    have a: "run s [Request 0 (GET ''/heartbeat'')] = sa"
      by (simp add: sa_def do_GET_def)
    have b: "run sa ws0 = sa"
      by (rule idle_wakes [OF _ _ assms(1)])
         (use s in \<open>simp_all add: sa_def HEARTBEAT_TIMEOUT_def\<close>)
    have c: "run sa [Request 10 (POST ''/shutdown'')] = sb"
      by (simp add: sb_def do_POST_def)
    have d: "run sb ws1 = sb"
      by (rule idle_wakes [OF _ _ assms(2)])
         (use s in \<open>simp_all add: sa_def sb_def HEARTBEAT_TIMEOUT_def SHUTDOWN_GRACE_PERIOD_def\<close>)
    have before: "run s ([Request 0 (GET ''/heartbeat'')] @ ws0 @
                             [Request 10 (POST ''/shutdown'')] @ ws1) = sb"
      using a b c d by (simp only: run_append)
    then have after: "run s ([Request 0 (GET ''/heartbeat'')] @ ws0 @
          [Request 10 (POST ''/shutdown'')] @ ws1 @ [Wake t1 t2 t3]) = heartbeat_monitor t1 t2 t3 sb"
      using a b c d by (simp add: run_append)
    have fire: "heartbeat_monitor t1 t2 t3 sb = (initiate_shutdown Browser_tab_closed sb)\<lparr>pc := Exited\<rparr>"
      using s assms(3-6) by (simp add: sa_def sb_def monitor_defs SHUTDOWN_GRACE_PERIOD_def)
    show ?thesis
      unfolding before after fire
      using s by (simp add: sa_def sb_def state_of_def initiate_shutdown_def Let_def)
  qed
  from warm loop show ?thesis by blast
qed

text \<open>
  The theorem at the process that started at -110, so that the monitor entered its loop at
  10, with passes at 11, 12, 13 and then 14.
\<close>

theorem terminating_after_grace_period_witness:
  "wakes_within 0 10 [] \<and>
   wakes_within 10 13 [Wake 11 11 11, Wake 12 12 12, Wake 13 13 13] \<and>
   state_of (system_at 10 (-110) []) = MONITORING \<and>
   state_of (run (system_at 10 (-110) [])
      ([Request 0 (GET ''/heartbeat'')] @ [] @ [Request 10 (POST ''/shutdown'')] @
       [Wake 11 11 11, Wake 12 12 12, Wake 13 13 13])) = MONITORING \<and>
   state_of (run (system_at 10 (-110) [])
      ([Request 0 (GET ''/heartbeat'')] @ [] @ [Request 10 (POST ''/shutdown'')] @
       [Wake 11 11 11, Wake 12 12 12, Wake 13 13 13] @ [Wake 14 14 14])) = TERMINATING \<and>
   pc (main_init 0) = Warmup_sleep \<and>
   \<not> shutdown_flag (heartbeat_monitor 120 120 120 (main_init 0)) \<and>
   state_of (system_at 14 (-110) [(0, GET ''/heartbeat''), (10, POST ''/shutdown'')]) = TERMINATING"
  using terminating_after_grace_period [of "[]" "[Wake 11 11 11, Wake 12 12 12, Wake 13 13 13]"
      14 14 14 "system_at 10 (-110) []" 120 120 120]
    terminating_after_grace_period [of "[]" "[]" 14 14 14 "main_init 0" 120 120 120]
  by (simp add: eval_defs)

text \<open>
  C2 as stated fails. For the process that started at 0 the warm-up sleep lasts until 120:
  with heartbeat at 0 and POST /shutdown at 10, the state at 14 is WARMUP, not
  TERMINATING; the shutdown is initiated by the first pass of the monitor, at 121.
\<close>

theorem warmup_outlasts_scenario:
  "state_of (system_at 14 0 [(0, GET ''/heartbeat''), (10, POST ''/shutdown'')]) = WARMUP \<and>
   \<not> shutdown_flag (system_at 14 0 [(0, GET ''/heartbeat''), (10, POST ''/shutdown'')]) \<and>
   state_of (system_at 120 0 [(0, GET ''/heartbeat''), (10, POST ''/shutdown'')]) = MONITORING \<and>
   state_of (system_at 121 0 [(0, GET ''/heartbeat''), (10, POST ''/shutdown'')]) = TERMINATING \<and>
   printed (system_at 121 0 [(0, GET ''/heartbeat''), (10, POST ''/shutdown'')])
     = [Browser_tab_closed]"
  by (simp add: eval_defs)

end
